theory Spec2Isabelle
  imports Complex_Main
begin

section \<open>Numbers and truthiness shared by the client code\<close>

text \<open>
  The numbers the client handles in the parts modelled here are read from the
  database as decimal numerals (\<open>credibility_score\<close> is a \<open>DECIMAL(3,2)\<close>
  column) and are only compared with the literals 0.4 and 0.7 or tested for
  truthiness. They are modelled by their exact decimal value, a rational.
  A value that may be \<open>null\<close> is an option.
\<close>

type_synonym number = rat

text \<open>JavaScript's \<open>x || d\<close> on a nullable number: \<open>null\<close> and 0 are falsy.\<close>

definition or_default :: "number option \<Rightarrow> number \<Rightarrow> number" where
  "or_default x d = (case x of None \<Rightarrow> d | Some v \<Rightarrow> if v = 0 then d else v)"

text \<open>\<open>x || null\<close> on a nullable number and on a string.\<close>

definition or_null :: "number option \<Rightarrow> number option" where
  "or_null x = (case x of None \<Rightarrow> None | Some v \<Rightarrow> if v = 0 then None else Some v)"

definition string_or_null :: "string \<Rightarrow> string option" where
  "string_or_null s = (if s = [] then None else Some s)"

section \<open>Credibility scorer: \<open>public.calculate_credibility_score\<close>\<close>

text \<open>
  The PL/pgSQL function keeps its running score in a variable declared
  \<open>DECIMAL(3,2)\<close>. Every assignment to that variable coerces the value to
  three digits with two of them after the point: the value is rounded to
  hundredths (ties away from zero) and the assignment raises
  \<open>numeric_value_out_of_range\<close> when the rounded value does not fit, that is
  when its absolute value reaches 10.

  The two \<open>INTEGER\<close> parameters are only compared with a constant, never
  computed with, so they are modelled as mathematical integers. The only caller
  (\<open>handleSubmit\<close>) passes non-null values for every parameter.
\<close>

datatype sql_error = numeric_value_out_of_range

definition round_half_away :: "rat \<Rightarrow> int" where
  "round_half_away x = (if 0 \<le> x then \<lfloor>x + 1 / 2\<rfloor> else - \<lfloor>- x + 1 / 2\<rfloor>)"

definition decimal_3_2 :: "rat \<Rightarrow> sql_error + rat" where
  "decimal_3_2 x =
     (let r = of_int (round_half_away (x * 100)) / 100
      in if \<bar>r\<bar> < 10 then Inr r else Inl numeric_value_out_of_range)"

text \<open>One guarded assignment \<open>IF c THEN score := score + d; END IF;\<close>.\<close>

definition add_if :: "bool \<Rightarrow> rat \<Rightarrow> rat \<Rightarrow> sql_error + rat" where
  "add_if c d score = (if c then decimal_3_2 (score + d) else Inr score)"

definition calculate_credibility_score :: "bool \<Rightarrow> bool \<Rightarrow> int \<Rightarrow> int \<Rightarrow> sql_error + rat" where
  "calculate_credibility_score has_image has_location description_length nearby_reports_count =
     (case decimal_3_2 0.1 of Inl e \<Rightarrow> Inl e | Inr score0 \<Rightarrow>
     (case add_if has_image 0.3 score0 of Inl e \<Rightarrow> Inl e | Inr score1 \<Rightarrow>
     (case add_if has_location 0.2 score1 of Inl e \<Rightarrow> Inl e | Inr score2 \<Rightarrow>
     (case add_if (description_length > 50) 0.1 score2 of Inl e \<Rightarrow> Inl e | Inr score3 \<Rightarrow>
     (case add_if (nearby_reports_count > 0) 0.3 score3 of Inl e \<Rightarrow> Inl e | Inr score4 \<Rightarrow>
     (if score4 > 1.0 then decimal_3_2 1.0 else Inr score4))))))"

section \<open>Roles: the \<open>user_roles\<close> table, \<open>get_user_role\<close> and the \<open>useUserRole\<close> hook\<close>

text \<open>
  \<open>CREATE TYPE public.user_role AS ENUM ('citizen', 'authority', 'admin')\<close>.
  PostgreSQL orders the values of an enum type by the position at which the
  type's declaration lists them; \<open>enum_position\<close> is that position.
\<close>

datatype user_role = Citizen | Authority | Admin

fun enum_position :: "user_role \<Rightarrow> nat" where
  "enum_position Citizen = 0"
| "enum_position Authority = 1"
| "enum_position Admin = 2"

text \<open>A row of \<open>public.user_roles\<close>; \<open>UNIQUE (user_id, role)\<close> lets one user
  hold several rows, one for each role.\<close>

record user_roles_row =
  ur_id :: string
  ur_user_id :: string
  ur_role :: user_role
  ur_created_at :: string
  ur_updated_at :: string

text \<open>
  \<open>get_user_role\<close> (SQL): \<open>SELECT role FROM user_roles WHERE user_id = _user_id
  ORDER BY CASE role WHEN 'admin' THEN 1 WHEN 'authority' THEN 2 WHEN 'citizen' THEN 3 END
  LIMIT 1\<close>. The result is \<open>NULL\<close> when no row is selected. Rows with equal
  sort keys carry the same role, so the order among them does not show in the
  result.
\<close>

fun order_by_case :: "user_role \<Rightarrow> nat" where
  "order_by_case Admin = 1"
| "order_by_case Authority = 2"
| "order_by_case Citizen = 3"

definition get_user_role :: "user_roles_row list \<Rightarrow> string \<Rightarrow> user_role option" where
  "get_user_role user_roles uid =
     (case take 1 (sort_key (\<lambda>r. order_by_case (ur_role r))
                     (filter (\<lambda>r. ur_user_id r = uid) user_roles)) of
        [] \<Rightarrow> None
      | r # _ \<Rightarrow> Some (ur_role r))"

text \<open>
  The client library answers a query with either \<open>data\<close> and no error, or an
  error and \<open>data = null\<close>; the \<open>await\<close> of a query may also throw.
\<close>

record postgrest_error =
  code :: string
  message :: string

datatype 'a postgrest_response = Success 'a | Failure postgrest_error

fun data :: "'a postgrest_response \<Rightarrow> 'a option" where
  "data (Success d) = Some d"
| "data (Failure e) = None"

fun error :: "'a postgrest_response \<Rightarrow> postgrest_error option" where
  "error (Success d) = None"
| "error (Failure e) = Some e"

datatype 'a awaited = Resolved 'a | Thrown

text \<open>
  The hook's query, as the database answers it:
  \<open>from('user_roles').select('role').eq('user_id', user.id)
   .order('role', { ascending: true }).limit(1).single()\<close>.
  The rows are ordered by the \<open>role\<close> column itself, an enum column, so by
  \<open>enum_position\<close>; \<open>single()\<close> answers with error code \<open>PGRST116\<close> unless
  exactly one row is left.
\<close>

definition no_rows_error :: postgrest_error where
  "no_rows_error = \<lparr>code = ''PGRST116'', message = ''JSON object requested, multiple (or no) rows returned''\<rparr>"

definition select_role_single :: "user_roles_row list \<Rightarrow> string \<Rightarrow> user_role postgrest_response" where
  "select_role_single user_roles uid =
     (case take 1 (sort_key (\<lambda>r. enum_position (ur_role r))
                     (filter (\<lambda>r. ur_user_id r = uid) user_roles)) of
        [r] \<Rightarrow> Success (ur_role r)
      | _ \<Rightarrow> Failure no_rows_error)"

text \<open>The signed-in user, as \<open>useAuth\<close> gives it (\<open>user.id\<close>, \<open>user.email\<close>).\<close>

record auth_user =
  auth_id :: string
  auth_email :: string

text \<open>The hook's state: \<open>role\<close> and \<open>loading\<close>.\<close>

record role_state =
  role :: "user_role option"
  loading :: bool

text \<open>
  \<open>fetchUserRole\<close>, given the signed-in user (or \<open>null\<close>) and the answer the
  query for a user id gets; the result is the hook's state once the effect has
  run.
\<close>

definition fetchUserRole ::
  "auth_user option \<Rightarrow> (string \<Rightarrow> user_role postgrest_response awaited) \<Rightarrow> role_state" where
  "fetchUserRole user query =
     (case user of
        None \<Rightarrow> \<lparr>role = None, loading = False\<rparr>
      | Some u \<Rightarrow>
          if auth_id u = [] then \<lparr>role = None, loading = False\<rparr>
          else
            (case query (auth_id u) of
               Thrown \<Rightarrow> \<lparr>role = Some Citizen, loading = False\<rparr>
             | Resolved response \<Rightarrow>
                 if (case error response of None \<Rightarrow> False | Some e \<Rightarrow> code e \<noteq> ''PGRST116'') then
                   \<lparr>role = Some Citizen, loading = False\<rparr>
                 else
                   \<lparr>role = Some (case data response of None \<Rightarrow> Citizen | Some r \<Rightarrow> r),
                    loading = False\<rparr>))"

text \<open>The role resolver against a given \<open>user_roles\<close> table.\<close>

definition resolveRole :: "user_roles_row list \<Rightarrow> auth_user option \<Rightarrow> user_role option" where
  "resolveRole user_roles user =
     role (fetchUserRole user (\<lambda>uid. Resolved (select_role_single user_roles uid)))"

fun roleHierarchy :: "user_role \<Rightarrow> nat" where
  "roleHierarchy Admin = 3"
| "roleHierarchy Authority = 2"
| "roleHierarchy Citizen = 1"

definition hasRole :: "user_role option \<Rightarrow> user_role \<Rightarrow> bool" where
  "hasRole role' requiredRole =
     (case role' of
        None \<Rightarrow> False
      | Some r \<Rightarrow> roleHierarchy r \<ge> roleHierarchy requiredRole)"

section \<open>Dashboard: the report list of \<open>MapDashboard\<close>\<close>

datatype hazard_type =
  Coastal_Flooding | High_Waves | Storm_Surge | Erosion | Tsunami_Warning | Strong_Winds | Other

datatype report_status = Submitted | Under_review | Resolved_status | Dismissed

text \<open>\<open>Tables<"hazard_reports">\<close>, the row type; \<open>id_col\<close> is the column \<open>id\<close>.\<close>

record hazard_reports_row =
  contact_number :: "string option"
  created_at :: string
  credibility_score :: "number option"
  description :: string
  hazard_type :: hazard_type
  id_col :: string
  image_url :: "string option"
  latitude :: "number option"
  location :: string
  longitude :: "number option"
  status :: report_status
  updated_at :: string
  urgency :: "string option"
  user_id :: string

text \<open>\<open>type HazardReport = Tables<"hazard_reports"> & { coordinates?: [number, number] }\<close>.\<close>

record HazardReport = hazard_reports_row +
  coordinates :: "(number \<times> number) option"

text \<open>\<open>latitude && longitude ? [latitude, longitude] : undefined\<close>.\<close>

definition coordinates_of :: "number option \<Rightarrow> number option \<Rightarrow> (number \<times> number) option" where
  "coordinates_of la lo =
     (case (or_null la, or_null lo) of
        (Some x, Some y) \<Rightarrow> Some (x, y)
      | _ \<Rightarrow> None)"

text \<open>\<open>{ ...report, coordinates: ... }\<close>: every column of the row, and the coordinates.\<close>

definition mappedReport :: "hazard_reports_row \<Rightarrow> HazardReport" where
  "mappedReport r =
     hazard_reports_row.extend r (HazardReport.fields (coordinates_of (latitude r) (longitude r)))"

text \<open>
  The callback of \<open>reports.filter(...)\<close> in \<open>filteredReports\<close>; \<open>filter_sel\<close> is
  the state variable \<open>filter\<close> (the urgency selection).
\<close>

definition filteredReports_keeps :: "string \<Rightarrow> string \<Rightarrow> HazardReport \<Rightarrow> bool" where
  "filteredReports_keeps filter_sel credibilityFilter report =
     (if filter_sel \<noteq> ''all'' \<and> urgency report \<noteq> Some filter_sel then False
      else if credibilityFilter \<noteq> ''all'' then
        (let score = or_default (credibility_score report) 0.5 in
         if credibilityFilter = ''high'' \<and> score < 0.7 then False
         else if credibilityFilter = ''medium'' \<and> (score < 0.4 \<or> score \<ge> 0.7) then False
         else if credibilityFilter = ''low'' \<and> score \<ge> 0.4 then False
         else True)
      else True)"

definition filteredReports :: "string \<Rightarrow> string \<Rightarrow> HazardReport list \<Rightarrow> HazardReport list" where
  "filteredReports filter_sel credibilityFilter reports =
     filter (filteredReports_keeps filter_sel credibilityFilter) reports"

text \<open>
  The two handlers of the realtime subscription, each applied to the list
  \<open>prevReports\<close> that \<open>setReports\<close> passes in; the event carries
  \<open>payload.new\<close>.
\<close>

datatype change_event = INSERT hazard_reports_row | UPDATE hazard_reports_row

fun on_change :: "change_event \<Rightarrow> HazardReport list \<Rightarrow> HazardReport list" where
  "on_change (INSERT newReport) prevReports = mappedReport newReport # prevReports"
| "on_change (UPDATE updatedReport) prevReports =
     map (\<lambda>report. if id_col report = id_col updatedReport then mappedReport updatedReport
                    else report) prevReports"

section \<open>Report intake: \<open>handleSubmit\<close> of \<open>ReportForm\<close>\<close>

record form_data =
  hazardType :: string
  description_field :: string
  location_field :: string
  contactNumber :: string

record image_file =
  file_name :: string
  file_content :: string

record CurrentLocation =
  cur_latitude :: number
  cur_longitude :: number

record form_state =
  formData :: form_data
  imageFile :: "image_file option"
  imagePreview :: string
  currentLocation :: "CurrentLocation option"
  isSubmitting :: bool

record toast =
  title :: string
  toast_description :: string
  variant :: "string option"

text \<open>The object passed to \<open>insert\<close>; the database fills the other columns.\<close>

record hazard_reports_insert =
  ins_user_id :: string
  ins_hazard_type :: string
  ins_description :: string
  ins_location :: string
  ins_contact_number :: "string option"
  ins_latitude :: "number option"
  ins_longitude :: "number option"
  ins_image_url :: "string option"
  ins_credibility_score :: number

text \<open>The backend as intake changes it: the image bucket and the report table.\<close>

record backend =
  report_images :: "(string \<times> image_file) list"
  hazard_reports :: "hazard_reports_insert list"

text \<open>
  What the outside answers during one submission: the clock, whether the
  upload fails (and with which message), the public URL of a stored file,
  whether the remote call of the scorer fails, and whether the insert fails
  (and with which message).
\<close>

record environment =
  now :: nat
  upload_error :: "string option"
  public_url :: "string \<Rightarrow> string"
  rpc_fails :: bool
  insert_error :: "string option"

text \<open>The steps one submission takes that are visible outside the form, in order.\<close>

datatype step =
    Toast toast
  | StorageUpload string image_file "string option"
  | Rpc bool bool int int
  | Insert hazard_reports_insert "string option"
  | OnClose

record outcome =
  form_after :: form_state
  backend_after :: backend
  steps :: "step list"

text \<open>The decimal text of a number, as a template literal prints \<open>Date.now()\<close>.\<close>

fun decimal :: "nat \<Rightarrow> string" where
  "decimal n =
     (if n < 10 then [''0123456789'' ! n]
      else decimal (n div 10) @ [''0123456789'' ! (n mod 10)])"

declare decimal.simps [simp del]

definition authentication_required :: toast where
  "authentication_required =
     \<lparr>title = ''Authentication Required'',
      toast_description = ''Please log in to submit a report.'',
      variant = Some ''destructive''\<rparr>"

definition missing_information :: toast where
  "missing_information =
     \<lparr>title = ''Missing Information'',
      toast_description = ''Please fill in all required fields.'',
      variant = Some ''destructive''\<rparr>"

definition submission_failed :: "string \<Rightarrow> toast" where
  "submission_failed msg =
     \<lparr>title = ''Submission Failed'', toast_description = msg, variant = Some ''destructive''\<rparr>"

definition submitted_successfully :: toast where
  "submitted_successfully =
     \<lparr>title = ''Report Submitted Successfully!'',
      toast_description = ''Thank you for your report. Authorities have been notified.'',
      variant = None\<rparr>"

definition resetForm :: "form_state \<Rightarrow> form_state" where
  "resetForm st =
     st\<lparr>formData := \<lparr>hazardType = [], description_field = [], location_field = [],
                       contactNumber = []\<rparr>,
        imageFile := None, imagePreview := [], currentLocation := None\<rparr>"

text \<open>
  The first part of the \<open>try\<close> block: the upload of the selected image. The
  result is \<open>Inl\<close> of the thrown error's message, or \<open>Inr imageUrl\<close>, with the
  backend and the steps taken.
\<close>

definition upload_image ::
  "environment \<Rightarrow> image_file option \<Rightarrow> backend \<Rightarrow> (string + string option) \<times> backend \<times> step list" where
  "upload_image env file db =
     (case file of
        None \<Rightarrow> (Inr None, db, [])
      | Some f \<Rightarrow>
          (let fileName = decimal (now env) @ ''-'' @ file_name f in
           case upload_error env of
             Some m \<Rightarrow> (Inl (''Image upload failed: '' @ m), db, [StorageUpload fileName f (Some m)])
           | None \<Rightarrow>
               (Inr (Some (public_url env fileName)),
                db\<lparr>report_images := report_images db @ [(fileName, f)]\<rparr>,
                [StorageUpload fileName f None])))"

text \<open>
  \<open>supabase.rpc('calculate_credibility_score', ...)\<close>: \<open>data\<close> is the function's
  result, or \<open>null\<close> when the call or the function fails.
\<close>

definition rpc_calculate_credibility_score ::
  "environment \<Rightarrow> bool \<Rightarrow> bool \<Rightarrow> int \<Rightarrow> int \<Rightarrow> number option" where
  "rpc_calculate_credibility_score env has_image has_location description_length nearby_reports_count =
     (if rpc_fails env then None
      else (case calculate_credibility_score has_image has_location description_length
                   nearby_reports_count of
              Inl e \<Rightarrow> None
            | Inr score \<Rightarrow> Some score))"

text \<open>The second part of the \<open>try\<close> block: the scoring call and the insert.\<close>

definition score_and_insert ::
  "environment \<Rightarrow> auth_user \<Rightarrow> form_state \<Rightarrow> string option \<Rightarrow> backend \<Rightarrow>
     (string + unit) \<times> backend \<times> step list" where
  "score_and_insert env u st imageUrl db =
     (let has_image = (imageFile st \<noteq> None);
          has_location =
            (case currentLocation st of
               None \<Rightarrow> False
             | Some c \<Rightarrow> cur_latitude c \<noteq> 0 \<and> cur_longitude c \<noteq> 0);
          description_length = int (length (description_field (formData st)));
          credibilityScore =
            rpc_calculate_credibility_score env has_image has_location description_length 0;
          row =
            \<lparr>ins_user_id = auth_id u,
             ins_hazard_type = hazardType (formData st),
             ins_description = description_field (formData st),
             ins_location = location_field (formData st),
             ins_contact_number = string_or_null (contactNumber (formData st)),
             ins_latitude =
               (case currentLocation st of None \<Rightarrow> None | Some c \<Rightarrow> or_null (Some (cur_latitude c))),
             ins_longitude =
               (case currentLocation st of None \<Rightarrow> None | Some c \<Rightarrow> or_null (Some (cur_longitude c))),
             ins_image_url = imageUrl,
             ins_credibility_score = or_default credibilityScore 0.5\<rparr>;
          called = Rpc has_image has_location description_length 0
      in case insert_error env of
           Some m \<Rightarrow> (Inl (''Failed to save report: '' @ m), db, [called, Insert row (Some m)])
         | None \<Rightarrow>
             (Inr (), db\<lparr>hazard_reports := hazard_reports db @ [row]\<rparr>,
              [called, Insert row None]))"

text \<open>
  \<open>handleSubmit\<close>. The two guards return before \<open>setIsSubmitting(true)\<close>; past
  them, a thrown error is caught and shown as \<open>Submission Failed\<close>, and
  \<open>finally\<close> clears \<open>isSubmitting\<close>.
\<close>

definition handleSubmit ::
  "environment \<Rightarrow> auth_user option \<Rightarrow> form_state \<Rightarrow> backend \<Rightarrow> outcome" where
  "handleSubmit env user st db =
     (case user of
        None \<Rightarrow> \<lparr>form_after = st, backend_after = db, steps = [Toast authentication_required]\<rparr>
      | Some u \<Rightarrow>
          if hazardType (formData st) = [] \<or> description_field (formData st) = []
             \<or> location_field (formData st) = [] then
            \<lparr>form_after = st, backend_after = db, steps = [Toast missing_information]\<rparr>
          else
            (case upload_image env (imageFile st) db of
               (Inl msg, db1, steps1) \<Rightarrow>
                 \<lparr>form_after = st\<lparr>isSubmitting := False\<rparr>, backend_after = db1,
                  steps = steps1 @ [Toast (submission_failed msg)]\<rparr>
             | (Inr imageUrl, db1, steps1) \<Rightarrow>
                 (case score_and_insert env u st imageUrl db1 of
                    (Inl msg, db2, steps2) \<Rightarrow>
                      \<lparr>form_after = st\<lparr>isSubmitting := False\<rparr>, backend_after = db2,
                       steps = steps1 @ steps2 @ [Toast (submission_failed msg)]\<rparr>
                  | (Inr done, db2, steps2) \<Rightarrow>
                      \<lparr>form_after = (resetForm st)\<lparr>isSubmitting := False\<rparr>, backend_after = db2,
                       steps = steps1 @ steps2 @ [Toast submitted_successfully, OnClose]\<rparr>)))"

section \<open>Properties of the credibility scorer\<close>

text \<open>Coercion to \<open>DECIMAL(3,2)\<close> leaves the values the scorer meets as they are.\<close>

lemma round_half_away_of_int: "round_half_away (of_int n) = n"
  by (simp add: round_half_away_def) linarith

lemma round_half_away_numeral [simp]: "round_half_away (numeral k) = numeral k"
  using round_half_away_of_int [of "numeral k"] by simp

lemma decimal_3_2_tenths [simp]:
  "decimal_3_2 (1 / 10) = Inr (1 / 10)" "decimal_3_2 (1 / 5) = Inr (1 / 5)"
  "decimal_3_2 (3 / 10) = Inr (3 / 10)" "decimal_3_2 (2 / 5) = Inr (2 / 5)"
  "decimal_3_2 (1 / 2) = Inr (1 / 2)" "decimal_3_2 (3 / 5) = Inr (3 / 5)"
  "decimal_3_2 (7 / 10) = Inr (7 / 10)" "decimal_3_2 (4 / 5) = Inr (4 / 5)"
  "decimal_3_2 (9 / 10) = Inr (9 / 10)" "decimal_3_2 1 = Inr 1"
  by (simp_all add: decimal_3_2_def)

lemma score_value:
  "calculate_credibility_score hi hl dl n =
     Inr (min (0.1 + 0.3 * of_bool hi + 0.2 * of_bool hl + 0.1 * of_bool (dl > 50)
               + 0.3 * of_bool (n > 0)) 1.0)"
  unfolding calculate_credibility_score_def add_if_def
  by (cases hi; cases hl; cases "dl > 50"; cases "n > 0"; simp)

text \<open>
  Claim C2. For all inputs the score equals
  \<open>min (0.1 + 0.3\<cdot>[hasImage] + 0.2\<cdot>[hasLocation] + 0.1\<cdot>[descriptionLength > 50]
  + 0.3\<cdot>[nearbyReportsCount > 0]) 1.0\<close>, and the function returns it without
  raising; in particular \<open>score(false,false,0,0) = 0.10\<close>,
  \<open>score(true,false,10,0) = 0.40\<close> and \<open>score(true,true,60,1) = 1.00\<close>.
\<close>

theorem calculate_credibility_score_formula:
  "calculate_credibility_score hasImage hasLocation descriptionLength nearbyReportsCount =
     Inr (min (0.1 + 0.3 * of_bool hasImage + 0.2 * of_bool hasLocation
               + 0.1 * of_bool (descriptionLength > 50)
               + 0.3 * of_bool (nearbyReportsCount > 0)) 1.0)
   \<and> calculate_credibility_score False False 0 0 = Inr 0.10
   \<and> calculate_credibility_score True False 10 0 = Inr 0.40
   \<and> calculate_credibility_score True True 60 1 = Inr 1.00"
  by (simp add: score_value)

text \<open>
  Claim C3. For all inputs the function returns a score in the closed interval
  from 0.1 to 1.0, and the score never decreases when \<open>hasImage\<close> or
  \<open>hasLocation\<close> goes from false to true, when \<open>descriptionLength\<close> grows or
  when \<open>nearbyReportsCount\<close> grows.
\<close>

theorem calculate_credibility_score_range_monotone:
  "(\<exists>s. calculate_credibility_score hasImage hasLocation len nearby = Inr s \<and> 0.1 \<le> s \<and> s \<le> 1.0)
   \<and> (\<exists>s s'. calculate_credibility_score False hasLocation len nearby = Inr s
          \<and> calculate_credibility_score True hasLocation len nearby = Inr s' \<and> s \<le> s')
   \<and> (\<exists>s s'. calculate_credibility_score hasImage False len nearby = Inr s
          \<and> calculate_credibility_score hasImage True len nearby = Inr s' \<and> s \<le> s')
   \<and> (len \<le> len' \<longrightarrow>
        (\<exists>s s'. calculate_credibility_score hasImage hasLocation len nearby = Inr s
          \<and> calculate_credibility_score hasImage hasLocation len' nearby = Inr s' \<and> s \<le> s'))
   \<and> (nearby \<le> nearby' \<longrightarrow>
        (\<exists>s s'. calculate_credibility_score hasImage hasLocation len nearby = Inr s
          \<and> calculate_credibility_score hasImage hasLocation len nearby' = Inr s' \<and> s \<le> s'))"
proof -
  let ?v = "\<lambda>hi hl (dl::int) (n::int).
     min (0.1 + 0.3 * of_bool hi + 0.2 * of_bool hl + 0.1 * of_bool (dl > 50)
          + 0.3 * of_bool (n > 0)) (1.0::rat)"
  have v: "calculate_credibility_score hi hl dl n = Inr (?v hi hl dl n)" for hi hl dl n
    by (rule score_value)
  have range: "0.1 \<le> ?v hasImage hasLocation len nearby \<and> ?v hasImage hasLocation len nearby \<le> 1.0"
    by (cases hasImage; cases hasLocation; cases "len > 50"; cases "nearby > 0"; simp)
  have image: "?v False hasLocation len nearby \<le> ?v True hasLocation len nearby"
    by (cases hasLocation; cases "len > 50"; cases "nearby > 0"; simp)
  have loc: "?v hasImage False len nearby \<le> ?v hasImage True len nearby"
    by (cases hasImage; cases "len > 50"; cases "nearby > 0"; simp)
  have length: "?v hasImage hasLocation len nearby \<le> ?v hasImage hasLocation len' nearby"
    if "len \<le> len'"
    using that
    by (cases hasImage; cases hasLocation; cases "len > 50"; cases "len' > 50";
        cases "nearby > 0"; simp)
  have near: "?v hasImage hasLocation len nearby \<le> ?v hasImage hasLocation len nearby'"
    if "nearby \<le> nearby'"
    using that
    by (cases hasImage; cases hasLocation; cases "len > 50"; cases "nearby > 0";
        cases "nearby' > 0"; simp)
  show ?thesis
    unfolding v using range image loc length near by blast
qed

text \<open>
  The theorem at a description growing from 10 to 60 characters and a count
  of nearby reports growing from 0 to 1.
\<close>

theorem calculate_credibility_score_range_monotone_witness:
  "(10::int) \<le> 60 \<and> (0::int) \<le> 1
   \<and> (\<exists>s s'. calculate_credibility_score True False 10 0 = Inr s
          \<and> calculate_credibility_score True False 60 0 = Inr s' \<and> s \<le> s')
   \<and> (\<exists>s s'. calculate_credibility_score True False 10 0 = Inr s
          \<and> calculate_credibility_score True False 10 1 = Inr s' \<and> s \<le> s')"
  using calculate_credibility_score_range_monotone [of True False 10 0 60 1]
  by simp

section \<open>Properties of the role resolver and of \<open>hasRole\<close>\<close>

text \<open>The first row of a list sorted by a key is a row of the list with the least key.\<close>

lemma hd_sort_key_least:
  fixes f :: "'a \<Rightarrow> nat"
  assumes "xs \<noteq> []"
  shows "hd (sort_key f xs) \<in> set xs \<and> (\<forall>x\<in>set xs. f (hd (sort_key f xs)) \<le> f x)"
proof -
  let ?ys = "sort_key f xs"
  have ne: "?ys \<noteq> []" using assms by (metis length_sort length_0_conv)
  then obtain y ys where ys: "?ys = y # ys" by (cases ?ys) auto
  have "sorted (map f ?ys)" by simp
  then have "\<forall>x\<in>set ys. f y \<le> f x" by (simp add: ys)
  moreover have "set ?ys = set xs" by simp
  ultimately show ?thesis using ys by (metis hd_conv_nth list.sel(1) list.set_intros(1) order_refl set_ConsD)
qed

lemma take_1_hd: "ys \<noteq> [] \<Longrightarrow> take (Suc 0) ys = [hd ys]"
  by (cases ys) simp_all

lemma enum_position_rank: "enum_position a \<le> enum_position b \<longleftrightarrow> roleHierarchy a \<le> roleHierarchy b"
  by (cases a; cases b; simp)

lemma order_by_case_rank: "order_by_case a \<le> order_by_case b \<longleftrightarrow> roleHierarchy b \<le> roleHierarchy a"
  by (cases a; cases b; simp)

text \<open>The SQL function returns the highest-ranked role among the user's rows.\<close>

lemma get_user_role_highest:
  assumes "filter (\<lambda>r. ur_user_id r = uid) user_roles \<noteq> []"
  shows "\<exists>r\<in>set user_roles. ur_user_id r = uid \<and> get_user_role user_roles uid = Some (ur_role r)
           \<and> (\<forall>r'\<in>set user_roles. ur_user_id r' = uid \<longrightarrow>
                 roleHierarchy (ur_role r') \<le> roleHierarchy (ur_role r))"
proof -
  let ?rows = "filter (\<lambda>r. ur_user_id r = uid) user_roles"
  let ?key = "\<lambda>r. order_by_case (ur_role r)"
  let ?r = "hd (sort_key ?key ?rows)"
  have ne: "sort_key ?key ?rows \<noteq> []" using assms by (metis length_sort length_0_conv)
  have least: "?r \<in> set ?rows \<and> (\<forall>x\<in>set ?rows. ?key ?r \<le> ?key x)"
    using hd_sort_key_least [OF assms, of ?key] .
  have "get_user_role user_roles uid = Some (ur_role ?r)"
    by (simp add: get_user_role_def take_1_hd [OF ne])
  then show ?thesis
    using least by (auto simp: order_by_case_rank)
qed

text \<open>The hook's query returns the lowest-ranked role among the user's rows.\<close>

lemma select_role_single_lowest:
  assumes "filter (\<lambda>r. ur_user_id r = uid) user_roles \<noteq> []"
  shows "\<exists>r\<in>set user_roles. ur_user_id r = uid \<and> select_role_single user_roles uid = Success (ur_role r)
           \<and> (\<forall>r'\<in>set user_roles. ur_user_id r' = uid \<longrightarrow>
                 roleHierarchy (ur_role r) \<le> roleHierarchy (ur_role r'))"
proof -
  let ?rows = "filter (\<lambda>r. ur_user_id r = uid) user_roles"
  let ?key = "\<lambda>r. enum_position (ur_role r)"
  let ?r = "hd (sort_key ?key ?rows)"
  have ne: "sort_key ?key ?rows \<noteq> []" using assms by (metis length_sort length_0_conv)
  have least: "?r \<in> set ?rows \<and> (\<forall>x\<in>set ?rows. ?key ?r \<le> ?key x)"
    using hd_sort_key_least [OF assms, of ?key] .
  have "select_role_single user_roles uid = Success (ur_role ?r)"
    by (simp add: select_role_single_def take_1_hd [OF ne])
  then show ?thesis
    using least by (auto simp: enum_position_rank)
qed

lemma select_role_single_no_rows:
  assumes "filter (\<lambda>r. ur_user_id r = uid) user_roles = []"
  shows "select_role_single user_roles uid = Failure no_rows_error"
  using assms by (simp add: select_role_single_def)

text \<open>So the resolver returns the lowest-ranked role among the user's rows.\<close>

lemma resolveRole_lowest:
  assumes "auth_id u \<noteq> []"
    and "filter (\<lambda>r. ur_user_id r = auth_id u) user_roles \<noteq> []"
  shows "\<exists>r\<in>set user_roles. ur_user_id r = auth_id u
           \<and> resolveRole user_roles (Some u) = Some (ur_role r)
           \<and> (\<forall>r'\<in>set user_roles. ur_user_id r' = auth_id u \<longrightarrow>
                 roleHierarchy (ur_role r) \<le> roleHierarchy (ur_role r'))"
proof -
  from select_role_single_lowest [OF assms(2)]
  obtain r where r: "r \<in> set user_roles" "ur_user_id r = auth_id u"
      "select_role_single user_roles (auth_id u) = Success (ur_role r)"
      "\<forall>r'\<in>set user_roles. ur_user_id r' = auth_id u \<longrightarrow>
          roleHierarchy (ur_role r) \<le> roleHierarchy (ur_role r')"
    by blast
  have "resolveRole user_roles (Some u) = Some (ur_role r)"
    using assms(1) r(3) by (simp add: resolveRole_def fetchUserRole_def)
  with r show ?thesis by blast
qed

text \<open>
  Claim C1 says that the role resolver returns the highest-ranked role of a
  user who holds several role rows. The hook does not: for a user who holds a
  citizen row and an admin row its query orders the enum column ascending,
  which puts citizen first, and the resolved role is citizen, whichever row
  the table lists first. The SQL function
  \<open>get_user_role\<close> returns admin for the same table.
\<close>

theorem useUserRole_returns_lowest_role:
  "resolveRole
     [\<lparr>ur_id = ''r1'', ur_user_id = ''u1'', ur_role = Citizen, ur_created_at = ''t1'', ur_updated_at = ''t1''\<rparr>,
      \<lparr>ur_id = ''r2'', ur_user_id = ''u1'', ur_role = Admin, ur_created_at = ''t2'', ur_updated_at = ''t2''\<rparr>]
     (Some \<lparr>auth_id = ''u1'', auth_email = ''a@b.c''\<rparr>) = Some Citizen
   \<and> resolveRole
     [\<lparr>ur_id = ''r2'', ur_user_id = ''u1'', ur_role = Admin, ur_created_at = ''t2'', ur_updated_at = ''t2''\<rparr>,
      \<lparr>ur_id = ''r1'', ur_user_id = ''u1'', ur_role = Citizen, ur_created_at = ''t1'', ur_updated_at = ''t1''\<rparr>]
     (Some \<lparr>auth_id = ''u1'', auth_email = ''a@b.c''\<rparr>) = Some Citizen
   \<and> get_user_role
     [\<lparr>ur_id = ''r1'', ur_user_id = ''u1'', ur_role = Citizen, ur_created_at = ''t1'', ur_updated_at = ''t1''\<rparr>,
      \<lparr>ur_id = ''r2'', ur_user_id = ''u1'', ur_role = Admin, ur_created_at = ''t2'', ur_updated_at = ''t2''\<rparr>]
     ''u1'' = Some Admin"
  by (simp add: resolveRole_def fetchUserRole_def select_role_single_def get_user_role_def)

text \<open>
  Claim C4. For every resolved role and every required role, \<open>hasRole\<close> is true
  exactly when the rank of the resolved role is at least the rank of the
  required role, with admin = 3, authority = 2 and citizen = 1. So \<open>hasRole\<close>
  is reflexive and transitive over the ranks, a user resolved to admin
  satisfies the required role citizen, and a user resolved to citizen fails
  the required role authority.
\<close>

theorem hasRole_rank_order:
  "(hasRole (Some resolved) required \<longleftrightarrow> roleHierarchy resolved \<ge> roleHierarchy required)
   \<and> roleHierarchy Admin = 3 \<and> roleHierarchy Authority = 2 \<and> roleHierarchy Citizen = 1
   \<and> hasRole (Some r) r
   \<and> (hasRole (Some a) b \<and> hasRole (Some b) c \<longrightarrow> hasRole (Some a) c)
   \<and> hasRole (Some Admin) Citizen
   \<and> \<not> hasRole (Some Citizen) Authority"
  by (simp add: hasRole_def)

text \<open>Transitivity at admin, authority and citizen.\<close>

theorem hasRole_rank_order_witness:
  "hasRole (Some Admin) Authority \<and> hasRole (Some Authority) Citizen \<and> hasRole (Some Admin) Citizen"
  using hasRole_rank_order [of Admin Citizen Admin Admin Authority Citizen]
  by (simp add: hasRole_def)

text \<open>
  Claim C9. For every user identifier for which no role row exists, and for
  every user identifier whose lookup fails (the query answers with an error,
  whatever its code, or the \<open>await\<close> throws), the resolved role is citizen.
  A user identifier is a non-empty string.
\<close>

theorem fetchUserRole_defaults_to_citizen:
  assumes "auth_id u \<noteq> []"
  shows "(filter (\<lambda>r. ur_user_id r = auth_id u) user_roles = [] \<longrightarrow>
            resolveRole user_roles (Some u) = Some Citizen)
       \<and> (query (auth_id u) = Resolved (Failure e) \<longrightarrow>
            role (fetchUserRole (Some u) query) = Some Citizen)
       \<and> (query (auth_id u) = Thrown \<longrightarrow>
            role (fetchUserRole (Some u) query) = Some Citizen)"
  using assms
  by (simp add: resolveRole_def fetchUserRole_def select_role_single_no_rows)

text \<open>
  A user without a row in a table that holds another user's admin row, a
  lookup refused with code 42501, and a lookup that throws.
\<close>

theorem fetchUserRole_defaults_to_citizen_witness:
  "auth_id \<lparr>auth_id = ''u2'', auth_email = ''a@b.c''\<rparr> \<noteq> []
   \<and> filter (\<lambda>r. ur_user_id r = ''u2'')
        [\<lparr>ur_id = ''r1'', ur_user_id = ''u1'', ur_role = Admin, ur_created_at = ''t1'', ur_updated_at = ''t1''\<rparr>] = []
   \<and> resolveRole
        [\<lparr>ur_id = ''r1'', ur_user_id = ''u1'', ur_role = Admin, ur_created_at = ''t1'', ur_updated_at = ''t1''\<rparr>]
        (Some \<lparr>auth_id = ''u2'', auth_email = ''a@b.c''\<rparr>) = Some Citizen
   \<and> role (fetchUserRole (Some \<lparr>auth_id = ''u2'', auth_email = ''a@b.c''\<rparr>)
        (\<lambda>uid. Resolved (Failure \<lparr>code = ''42501'', message = ''permission denied''\<rparr>))) = Some Citizen
   \<and> role (fetchUserRole (Some \<lparr>auth_id = ''u2'', auth_email = ''a@b.c''\<rparr>) (\<lambda>uid. Thrown)) = Some Citizen"
  using fetchUserRole_defaults_to_citizen
    [of "\<lparr>auth_id = ''u2'', auth_email = ''a@b.c''\<rparr>"
        "[\<lparr>ur_id = ''r1'', ur_user_id = ''u1'', ur_role = Admin, ur_created_at = ''t1'', ur_updated_at = ''t1''\<rparr>]"
        "\<lambda>uid. Resolved (Failure \<lparr>code = ''42501'', message = ''permission denied''\<rparr>)"
        "\<lparr>code = ''42501'', message = ''permission denied''\<rparr>"]
    fetchUserRole_defaults_to_citizen
    [of "\<lparr>auth_id = ''u2'', auth_email = ''a@b.c''\<rparr>" "[]" "\<lambda>uid. Thrown"]
  by simp

text \<open>
  Claim C10. When no authenticated user is present the resolved role is
  \<open>null\<close>, not citizen, and \<open>hasRole\<close> is false for every required role,
  citizen included; an authenticated user whose lookup throws is resolved to
  citizen and does satisfy the required role citizen.
\<close>

theorem no_user_no_role:
  "fetchUserRole None query = \<lparr>role = None, loading = False\<rparr>
   \<and> \<not> hasRole (role (fetchUserRole None query)) requiredRole
   \<and> \<not> hasRole (role (fetchUserRole None query)) Citizen
   \<and> hasRole (role (fetchUserRole (Some \<lparr>auth_id = ''u1'', auth_email = ''a@b.c''\<rparr>) (\<lambda>uid. Thrown))) Citizen"
  by (simp add: fetchUserRole_def hasRole_def)

section \<open>Properties of the dashboard's filter\<close>

text \<open>
  On a report whose score is present and not 0 the callback keeps exactly the
  reports of the selected urgency and credibility band, and the three
  boundary scores fall as the bands say.
\<close>

lemma filteredReports_keeps_all:
  "filteredReports_keeps filter_sel ''all'' report \<longleftrightarrow>
     (filter_sel = ''all'' \<or> urgency report = Some filter_sel)"
  by (simp add: filteredReports_keeps_def)

lemma filteredReports_keeps_high:
  assumes "credibility_score report = Some score" and "score \<noteq> 0"
  shows "filteredReports_keeps filter_sel ''high'' report \<longleftrightarrow>
     (filter_sel = ''all'' \<or> urgency report = Some filter_sel) \<and> score \<ge> 0.70"
  using assms by (simp add: filteredReports_keeps_def or_default_def not_less)

lemma filteredReports_keeps_medium:
  assumes "credibility_score report = Some score" and "score \<noteq> 0"
  shows "filteredReports_keeps filter_sel ''medium'' report \<longleftrightarrow>
     (filter_sel = ''all'' \<or> urgency report = Some filter_sel) \<and> 0.40 \<le> score \<and> score < 0.70"
  using assms by (simp add: filteredReports_keeps_def or_default_def not_less not_le)

lemma filteredReports_keeps_low:
  assumes "credibility_score report = Some score" and "score \<noteq> 0"
  shows "filteredReports_keeps filter_sel ''low'' report \<longleftrightarrow>
     (filter_sel = ''all'' \<or> urgency report = Some filter_sel) \<and> score < 0.40"
  using assms by (simp add: filteredReports_keeps_def or_default_def not_less not_le)

lemma filteredReports_boundaries:
  assumes "urgency report = Some ''high''"
  shows "credibility_score report = Some 0.69 \<Longrightarrow>
           filteredReports_keeps ''all'' ''medium'' report \<and> \<not> filteredReports_keeps ''all'' ''high'' report"
    and "credibility_score report = Some 0.70 \<Longrightarrow>
           filteredReports_keeps ''all'' ''high'' report \<and> \<not> filteredReports_keeps ''all'' ''medium'' report"
    and "credibility_score report = Some 0.39 \<Longrightarrow>
           filteredReports_keeps ''all'' ''low'' report \<and> \<not> filteredReports_keeps ''all'' ''medium'' report"
  using assms by (simp_all add: filteredReports_keeps_def or_default_def)

lemma filteredReports_keeps_missing_score:
  assumes "credibility_score report = None"
  shows "filteredReports_keeps ''all'' ''medium'' report"
  using assms by (simp add: filteredReports_keeps_def or_default_def)

lemma filteredReports_set:
  "set (filteredReports filter_sel credibilityFilter reports) =
     {report \<in> set reports. filteredReports_keeps filter_sel credibilityFilter report}"
  by (simp add: filteredReports_def)

text \<open>
  Claim C5 says that under the credibility filter "low" a report is kept
  exactly when its score is below 0.40. A report whose score is 0 is not
  kept under "low" and is kept under "medium": \<open>report.credibility_score || 0.5\<close>
  reads the score 0 as 0.5.
\<close>

theorem filteredReports_zero_score:
  "\<not> filteredReports_keeps ''all'' ''low''
       \<lparr>contact_number = None, created_at = ''t0'', credibility_score = Some 0,
        description = ''d'', hazard_type = Other, id_col = ''r1'', image_url = None,
        latitude = None, location = ''l'', longitude = None, status = Submitted,
        updated_at = ''t0'', urgency = Some ''low'', user_id = ''u1'', coordinates = None\<rparr>
   \<and> filteredReports_keeps ''all'' ''medium''
       \<lparr>contact_number = None, created_at = ''t0'', credibility_score = Some 0,
        description = ''d'', hazard_type = Other, id_col = ''r1'', image_url = None,
        latitude = None, location = ''l'', longitude = None, status = Submitted,
        updated_at = ''t0'', urgency = Some ''low'', user_id = ''u1'', coordinates = None\<rparr>"
  by (simp add: filteredReports_keeps_def or_default_def)

section \<open>Properties of the realtime handlers\<close>

lemma mappedReport_columns [simp]:
  "hazard_reports_row.truncate (mappedReport r) = r"
  "id_col (mappedReport r) = id_col r"
  "coordinates (mappedReport r) = coordinates_of (latitude r) (longitude r)"
  by (simp_all add: mappedReport_def hazard_reports_row.defs HazardReport.defs)

lemma map_replace_unique:
  assumes "\<forall>x\<in>set (before @ after). id_col x \<noteq> k" and "id_col old = k"
  shows "map (\<lambda>report. if id_col report = k then new else report) (before @ old # after)
           = before @ new # after"
  using assms by (simp add: map_idI)

lemma map_replace_absent:
  assumes "\<forall>x\<in>set prev. id_col x \<noteq> k"
  shows "map (\<lambda>report. if id_col report = k then new else report) prev = prev"
  using assms by (simp add: map_idI)

text \<open>
  Claim C6. For every state of the in-memory report list: an insert event
  puts the new report, with all its columns, at the front of the list; an
  update event keeps the length and the order of the list and replaces, in
  place, the entries whose id is the event's id and no other entry, so that
  when one entry has that id exactly that entry is replaced; and an update
  event whose id matches no entry leaves the list as it is.
\<close>

theorem on_change_insert_update:
  "on_change (INSERT newReport) prevReports = mappedReport newReport # prevReports
   \<and> hazard_reports_row.truncate (mappedReport newReport) = newReport
   \<and> length (on_change (UPDATE updatedReport) prevReports) = length prevReports
   \<and> (\<forall>i<length prevReports.
         on_change (UPDATE updatedReport) prevReports ! i =
           (if id_col (prevReports ! i) = id_col updatedReport then mappedReport updatedReport
            else prevReports ! i))
   \<and> ((\<forall>x\<in>set (before @ after). id_col x \<noteq> id_col updatedReport)
          \<and> id_col old = id_col updatedReport \<longrightarrow>
        on_change (UPDATE updatedReport) (before @ old # after) =
          before @ mappedReport updatedReport # after)
   \<and> ((\<forall>x\<in>set prevReports. id_col x \<noteq> id_col updatedReport) \<longrightarrow>
        on_change (UPDATE updatedReport) prevReports = prevReports)"
  using map_replace_unique [of before after "id_col updatedReport" old "mappedReport updatedReport"]
        map_replace_absent [of prevReports "id_col updatedReport" "mappedReport updatedReport"]
  by simp

text \<open>
  An update of report r1 against a list that holds r1 and r2, and against a
  list that holds only r2.
\<close>

theorem on_change_insert_update_witness:
  "id_col (mappedReport
       \<lparr>contact_number = None, created_at = ''t2'', credibility_score = Some 0.6,
        description = ''Cliff edge collapsing'', hazard_type = Erosion, id_col = ''r2'',
        image_url = None, latitude = Some 8.4, location = ''Kovalam Beach'', longitude = Some 76.9,
        status = Submitted, updated_at = ''t2'', urgency = Some ''low'', user_id = ''u2''\<rparr>) \<noteq> id_col
       \<lparr>contact_number = None, created_at = ''t1'', credibility_score = Some 0.4,
        description = ''High waves at the pier'', hazard_type = High_Waves, id_col = ''r1'',
        image_url = None, latitude = None, location = ''Marine Drive'', longitude = None,
        status = Under_review, updated_at = ''t3'', urgency = Some ''high'', user_id = ''u1''\<rparr>
   \<and> id_col (mappedReport
       \<lparr>contact_number = None, created_at = ''t1'', credibility_score = Some 0.4,
        description = ''High waves at the pier'', hazard_type = High_Waves, id_col = ''r1'',
        image_url = None, latitude = None, location = ''Marine Drive'', longitude = None,
        status = Submitted, updated_at = ''t1'', urgency = Some ''medium'', user_id = ''u1''\<rparr>) = id_col
       \<lparr>contact_number = None, created_at = ''t1'', credibility_score = Some 0.4,
        description = ''High waves at the pier'', hazard_type = High_Waves, id_col = ''r1'',
        image_url = None, latitude = None, location = ''Marine Drive'', longitude = None,
        status = Under_review, updated_at = ''t3'', urgency = Some ''high'', user_id = ''u1''\<rparr>
   \<and> on_change (UPDATE
       \<lparr>contact_number = None, created_at = ''t1'', credibility_score = Some 0.4,
        description = ''High waves at the pier'', hazard_type = High_Waves, id_col = ''r1'',
        image_url = None, latitude = None, location = ''Marine Drive'', longitude = None,
        status = Under_review, updated_at = ''t3'', urgency = Some ''high'', user_id = ''u1''\<rparr>)
       [mappedReport
       \<lparr>contact_number = None, created_at = ''t1'', credibility_score = Some 0.4,
        description = ''High waves at the pier'', hazard_type = High_Waves, id_col = ''r1'',
        image_url = None, latitude = None, location = ''Marine Drive'', longitude = None,
        status = Submitted, updated_at = ''t1'', urgency = Some ''medium'', user_id = ''u1''\<rparr>,
        mappedReport
       \<lparr>contact_number = None, created_at = ''t2'', credibility_score = Some 0.6,
        description = ''Cliff edge collapsing'', hazard_type = Erosion, id_col = ''r2'',
        image_url = None, latitude = Some 8.4, location = ''Kovalam Beach'', longitude = Some 76.9,
        status = Submitted, updated_at = ''t2'', urgency = Some ''low'', user_id = ''u2''\<rparr>]
     = [mappedReport
       \<lparr>contact_number = None, created_at = ''t1'', credibility_score = Some 0.4,
        description = ''High waves at the pier'', hazard_type = High_Waves, id_col = ''r1'',
        image_url = None, latitude = None, location = ''Marine Drive'', longitude = None,
        status = Under_review, updated_at = ''t3'', urgency = Some ''high'', user_id = ''u1''\<rparr>,
        mappedReport
       \<lparr>contact_number = None, created_at = ''t2'', credibility_score = Some 0.6,
        description = ''Cliff edge collapsing'', hazard_type = Erosion, id_col = ''r2'',
        image_url = None, latitude = Some 8.4, location = ''Kovalam Beach'', longitude = Some 76.9,
        status = Submitted, updated_at = ''t2'', urgency = Some ''low'', user_id = ''u2''\<rparr>]
   \<and> on_change (UPDATE
       \<lparr>contact_number = None, created_at = ''t1'', credibility_score = Some 0.4,
        description = ''High waves at the pier'', hazard_type = High_Waves, id_col = ''r1'',
        image_url = None, latitude = None, location = ''Marine Drive'', longitude = None,
        status = Under_review, updated_at = ''t3'', urgency = Some ''high'', user_id = ''u1''\<rparr>)
       [mappedReport
       \<lparr>contact_number = None, created_at = ''t2'', credibility_score = Some 0.6,
        description = ''Cliff edge collapsing'', hazard_type = Erosion, id_col = ''r2'',
        image_url = None, latitude = Some 8.4, location = ''Kovalam Beach'', longitude = Some 76.9,
        status = Submitted, updated_at = ''t2'', urgency = Some ''low'', user_id = ''u2''\<rparr>]
     = [mappedReport
       \<lparr>contact_number = None, created_at = ''t2'', credibility_score = Some 0.6,
        description = ''Cliff edge collapsing'', hazard_type = Erosion, id_col = ''r2'',
        image_url = None, latitude = Some 8.4, location = ''Kovalam Beach'', longitude = Some 76.9,
        status = Submitted, updated_at = ''t2'', urgency = Some ''low'', user_id = ''u2''\<rparr>]"
  using on_change_insert_update
    [of "\<lparr>contact_number = None, created_at = ''t1'', credibility_score = Some 0.4,
        description = ''High waves at the pier'', hazard_type = High_Waves, id_col = ''r1'',
        image_url = None, latitude = None, location = ''Marine Drive'', longitude = None,
        status = Under_review, updated_at = ''t3'', urgency = Some ''high'', user_id = ''u1''\<rparr>"
        "[mappedReport
       \<lparr>contact_number = None, created_at = ''t2'', credibility_score = Some 0.6,
        description = ''Cliff edge collapsing'', hazard_type = Erosion, id_col = ''r2'',
        image_url = None, latitude = Some 8.4, location = ''Kovalam Beach'', longitude = Some 76.9,
        status = Submitted, updated_at = ''t2'', urgency = Some ''low'', user_id = ''u2''\<rparr>]"
        "\<lparr>contact_number = None, created_at = ''t1'', credibility_score = Some 0.4,
        description = ''High waves at the pier'', hazard_type = High_Waves, id_col = ''r1'',
        image_url = None, latitude = None, location = ''Marine Drive'', longitude = None,
        status = Under_review, updated_at = ''t3'', urgency = Some ''high'', user_id = ''u1''\<rparr>"
        "[]"
        "[mappedReport
       \<lparr>contact_number = None, created_at = ''t2'', credibility_score = Some 0.6,
        description = ''Cliff edge collapsing'', hazard_type = Erosion, id_col = ''r2'',
        image_url = None, latitude = Some 8.4, location = ''Kovalam Beach'', longitude = Some 76.9,
        status = Submitted, updated_at = ''t2'', urgency = Some ''low'', user_id = ''u2''\<rparr>]"
        "mappedReport
       \<lparr>contact_number = None, created_at = ''t1'', credibility_score = Some 0.4,
        description = ''High waves at the pier'', hazard_type = High_Waves, id_col = ''r1'',
        image_url = None, latitude = None, location = ''Marine Drive'', longitude = None,
        status = Submitted, updated_at = ''t1'', urgency = Some ''medium'', user_id = ''u1''\<rparr>"]
  by simp

section \<open>Properties of report intake\<close>

text \<open>
  Claim C7 as stated fails when nobody is signed in: a submission with an
  empty hazard type then ends with the notification "Authentication
  Required", not with the validation error.
\<close>

theorem handleSubmit_empty_field_unauthenticated:
  "hazardType (formData
      \<lparr>formData = \<lparr>hazardType = [], description_field = ''High waves at the pier'',
                    location_field = ''Marine Drive'', contactNumber = []\<rparr>,
       imageFile = None, imagePreview = [], currentLocation = None, isSubmitting = False\<rparr>) = []
   \<and> steps (handleSubmit
      \<lparr>now = 7, upload_error = None, public_url = (\<lambda>fileName. ''https://storage/'' @ fileName),
       rpc_fails = False, insert_error = None\<rparr>
      None
      \<lparr>formData = \<lparr>hazardType = [], description_field = ''High waves at the pier'',
                    location_field = ''Marine Drive'', contactNumber = []\<rparr>,
       imageFile = None, imagePreview = [], currentLocation = None, isSubmitting = False\<rparr>
      \<lparr>report_images = [], hazard_reports = []\<rparr>) = [Toast authentication_required]
   \<and> Toast authentication_required \<noteq> Toast missing_information"
  by (simp add: handleSubmit_def authentication_required_def missing_information_def)

text \<open>
  Claim C7, amended. For every submission in which any of the three required
  fields (hazard type, description, location) is empty: when a user is signed
  in, intake shows the validation error "Missing Information" and does
  nothing else; when nobody is signed in, it shows "Authentication Required"
  and does nothing else. In both cases there is no image upload, no scoring
  call and no insert, and the form and the backend are unchanged.
\<close>

theorem handleSubmit_validation:
  assumes "hazardType (formData st) = [] \<or> description_field (formData st) = []
           \<or> location_field (formData st) = []"
  shows "(user \<noteq> None \<longrightarrow>
            handleSubmit env user st db =
              \<lparr>form_after = st, backend_after = db, steps = [Toast missing_information]\<rparr>)
       \<and> (user = None \<longrightarrow>
            handleSubmit env user st db =
              \<lparr>form_after = st, backend_after = db, steps = [Toast authentication_required]\<rparr>)"
  using assms by (cases user) (simp_all add: handleSubmit_def)

text \<open>A signed-in user submitting an empty description, with an image selected.\<close>

theorem handleSubmit_validation_witness:
  "description_field (formData
      \<lparr>formData = \<lparr>hazardType = ''Erosion'', description_field = [],
                    location_field = ''Marine Drive'', contactNumber = []\<rparr>,
       imageFile = Some \<lparr>file_name = ''pier.jpg'', file_content = ''...''\<rparr>, imagePreview = [],
       currentLocation = None, isSubmitting = False\<rparr>) = []
   \<and> handleSubmit
      \<lparr>now = 7, upload_error = None, public_url = (\<lambda>fileName. ''https://storage/'' @ fileName),
       rpc_fails = False, insert_error = None\<rparr>
      (Some \<lparr>auth_id = ''u1'', auth_email = ''a@b.c''\<rparr>)
      \<lparr>formData = \<lparr>hazardType = ''Erosion'', description_field = [],
                    location_field = ''Marine Drive'', contactNumber = []\<rparr>,
       imageFile = Some \<lparr>file_name = ''pier.jpg'', file_content = ''...''\<rparr>, imagePreview = [],
       currentLocation = None, isSubmitting = False\<rparr>
      \<lparr>report_images = [], hazard_reports = []\<rparr>
     = \<lparr>form_after =
          \<lparr>formData = \<lparr>hazardType = ''Erosion'', description_field = [],
                        location_field = ''Marine Drive'', contactNumber = []\<rparr>,
           imageFile = Some \<lparr>file_name = ''pier.jpg'', file_content = ''...''\<rparr>, imagePreview = [],
           currentLocation = None, isSubmitting = False\<rparr>,
        backend_after = \<lparr>report_images = [], hazard_reports = []\<rparr>,
        steps = [Toast missing_information]\<rparr>"
  using handleSubmit_validation
    [of "\<lparr>formData = \<lparr>hazardType = ''Erosion'', description_field = [],
                    location_field = ''Marine Drive'', contactNumber = []\<rparr>,
       imageFile = Some \<lparr>file_name = ''pier.jpg'', file_content = ''...''\<rparr>, imagePreview = [],
       currentLocation = None, isSubmitting = False\<rparr>"
        "Some \<lparr>auth_id = ''u1'', auth_email = ''a@b.c''\<rparr>"
        "\<lparr>now = 7, upload_error = None, public_url = (\<lambda>fileName. ''https://storage/'' @ fileName),
       rpc_fails = False, insert_error = None\<rparr>"
        "\<lparr>report_images = [], hazard_reports = []\<rparr>"]
  by simp

text \<open>
  Claim C8. For every submission with an attached image whose upload is
  answered with an error: the report table and the image bucket are
  unchanged, and no scoring call and no insert is among the steps, whoever
  submits and whatever the fields hold. When the submission reaches the
  upload (a user is signed in and the three required fields are filled), it
  consists of the failed upload followed by the notification "Submission
  Failed" with the description "Image upload failed: " and the upload
  error's message, and nothing else; the form is kept, with \<open>isSubmitting\<close>
  cleared.
\<close>

theorem handleSubmit_upload_failure:
  assumes "imageFile st = Some f" and "upload_error env = Some m"
  shows "backend_after (handleSubmit env user st db) = db
       \<and> (\<forall>row r. Insert row r \<notin> set (steps (handleSubmit env user st db)))
       \<and> (\<forall>a b c d. Rpc a b c d \<notin> set (steps (handleSubmit env user st db)))
       \<and> (user = Some u \<and> hazardType (formData st) \<noteq> []
            \<and> description_field (formData st) \<noteq> [] \<and> location_field (formData st) \<noteq> [] \<longrightarrow>
          handleSubmit env user st db =
            \<lparr>form_after = st\<lparr>isSubmitting := False\<rparr>,
             backend_after = db,
             steps =
               [StorageUpload (decimal (now env) @ ''-'' @ file_name f) f (Some m),
                Toast \<lparr>title = ''Submission Failed'',
                       toast_description = ''Image upload failed: '' @ m,
                       variant = Some ''destructive''\<rparr>]\<rparr>)"
proof (cases user)
  case None
  then show ?thesis
    by (simp add: handleSubmit_def)
next
  case (Some v)
  show ?thesis
  proof (cases "hazardType (formData st) = [] \<or> description_field (formData st) = []
                 \<or> location_field (formData st) = []")
    case True
    with Some show ?thesis
      by (auto simp: handleSubmit_def)
  next
    case False
    with Some assms show ?thesis
      by (simp add: handleSubmit_def upload_image_def submission_failed_def)
  qed
qed

text \<open>
  A signed-in user submitting a complete form with an image, at clock value 7,
  the upload answered with the error "timeout".
\<close>

theorem handleSubmit_upload_failure_witness:
  "imageFile
        \<lparr>formData = \<lparr>hazardType = ''Erosion'', description_field = ''Cliff edge collapsing'',
                      location_field = ''Kovalam Beach'', contactNumber = []\<rparr>,
         imageFile = Some \<lparr>file_name = ''cliff.jpg'', file_content = ''...''\<rparr>,
         imagePreview = [], currentLocation = None, isSubmitting = False\<rparr> = Some \<lparr>file_name = ''cliff.jpg'', file_content = ''...''\<rparr>
   \<and> upload_error
        \<lparr>now = 7, upload_error = Some ''timeout'',
         public_url = (\<lambda>fileName. ''https://storage/'' @ fileName),
         rpc_fails = False, insert_error = None\<rparr> = Some ''timeout''
   \<and> handleSubmit
        \<lparr>now = 7, upload_error = Some ''timeout'',
         public_url = (\<lambda>fileName. ''https://storage/'' @ fileName),
         rpc_fails = False, insert_error = None\<rparr>
        (Some \<lparr>auth_id = ''u1'', auth_email = ''a@b.c''\<rparr>)
        \<lparr>formData = \<lparr>hazardType = ''Erosion'', description_field = ''Cliff edge collapsing'',
                      location_field = ''Kovalam Beach'', contactNumber = []\<rparr>,
         imageFile = Some \<lparr>file_name = ''cliff.jpg'', file_content = ''...''\<rparr>,
         imagePreview = [], currentLocation = None, isSubmitting = False\<rparr>
        \<lparr>report_images = [], hazard_reports = []\<rparr>
     = \<lparr>form_after =
        \<lparr>formData = \<lparr>hazardType = ''Erosion'', description_field = ''Cliff edge collapsing'',
                      location_field = ''Kovalam Beach'', contactNumber = []\<rparr>,
         imageFile = Some \<lparr>file_name = ''cliff.jpg'', file_content = ''...''\<rparr>,
         imagePreview = [], currentLocation = None, isSubmitting = False\<rparr>,
        backend_after = \<lparr>report_images = [], hazard_reports = []\<rparr>,
        steps =
          [StorageUpload ''7-cliff.jpg'' \<lparr>file_name = ''cliff.jpg'', file_content = ''...''\<rparr> (Some ''timeout''),
           Toast \<lparr>title = ''Submission Failed'',
                  toast_description = ''Image upload failed: timeout'',
                  variant = Some ''destructive''\<rparr>]\<rparr>"
  using handleSubmit_upload_failure
    [of "\<lparr>formData = \<lparr>hazardType = ''Erosion'', description_field = ''Cliff edge collapsing'',
                      location_field = ''Kovalam Beach'', contactNumber = []\<rparr>,
         imageFile = Some \<lparr>file_name = ''cliff.jpg'', file_content = ''...''\<rparr>,
         imagePreview = [], currentLocation = None, isSubmitting = False\<rparr>"
        "\<lparr>file_name = ''cliff.jpg'', file_content = ''...''\<rparr>"
        "\<lparr>now = 7, upload_error = Some ''timeout'',
         public_url = (\<lambda>fileName. ''https://storage/'' @ fileName),
         rpc_fails = False, insert_error = None\<rparr>"
        "''timeout''"
        "Some \<lparr>auth_id = ''u1'', auth_email = ''a@b.c''\<rparr>"
        "\<lparr>report_images = [], hazard_reports = []\<rparr>"
        "\<lparr>auth_id = ''u1'', auth_email = ''a@b.c''\<rparr>"]
  by (simp add: decimal.simps [of 7])

end
